theory Spec2Isabelle
  imports Main
begin

section \<open>JavaScript values\<close>

text \<open>
  The values that flow through \<^verbatim>\<open>InAppUpdatesNative.ts\<close>: version codes, availability
  statuses, update types and the fields of event payloads. \<open>JNum n\<close> is the Number with the
  integral value \<open>n\<close>; the model covers the safe integers (magnitude below \<open>2 ^ 53\<close>),
  where a Number is exactly its integer and prints as its decimal numeral. \<open>JNaN\<close> is the
  Number NaN. Negative zero is not told apart from zero. A string is a list of code units
  below 256.
\<close>

datatype js_value = JUndefined | JNull | JBool bool | JNum int | JNaN | JStr string

text \<open>ToBoolean, as \<^verbatim>\<open>!x\<close> and \<^verbatim>\<open>x ? a : b\<close> apply it.\<close>

fun js_truthy :: "js_value \<Rightarrow> bool" where
  "js_truthy JUndefined = False"
| "js_truthy JNull = False"
| "js_truthy (JBool b) = b"
| "js_truthy (JNum n) = (n \<noteq> 0)"
| "js_truthy JNaN = False"
| "js_truthy (JStr s) = (s \<noteq> [])"

text \<open>Strict equality \<^verbatim>\<open>===\<close>: same type and same value, and NaN equals nothing.\<close>

definition js_strict_eq :: "js_value \<Rightarrow> js_value \<Rightarrow> bool" where
  "js_strict_eq a b = (a = b \<and> a \<noteq> JNaN)"

definition digit_char :: "nat \<Rightarrow> char" where
  "digit_char d = ''0123456789'' ! d"

fun string_of_nat :: "nat \<Rightarrow> string" where
  "string_of_nat n =
     (if n < 10 then [digit_char n]
      else string_of_nat (n div 10) @ [digit_char (n mod 10)])"

declare string_of_nat.simps [simp del]

text \<open>ToString, as a template literal \<^verbatim>\<open>`${x}`\<close> and \<^verbatim>\<open>parseInt\<close> apply it.\<close>

fun js_to_string :: "js_value \<Rightarrow> string" where
  "js_to_string JUndefined = ''undefined''"
| "js_to_string JNull = ''null''"
| "js_to_string (JBool b) = (if b then ''true'' else ''false'')"
| "js_to_string (JNum n) =
     (if n < 0 then CHR ''-'' # string_of_nat (nat (- n)) else string_of_nat (nat n))"
| "js_to_string JNaN = ''NaN''"
| "js_to_string (JStr s) = s"

text \<open>
  A plain object is a finite map from property names to values; reading a property that is
  not there gives \<^verbatim>\<open>undefined\<close>.
\<close>

type_synonym js_object = "string \<rightharpoonup> js_value"

definition js_get :: "js_object \<Rightarrow> string \<Rightarrow> js_value" where
  "js_get obj k = (case obj k of None \<Rightarrow> JUndefined | Some v \<Rightarrow> v)"

text \<open>
  \<^verbatim>\<open>x || {}\<close> for an object that may be \<^verbatim>\<open>null\<close> or \<^verbatim>\<open>undefined\<close> (\<open>None\<close>): the
  object itself, or one with no property.
\<close>

definition or_empty :: "js_object option \<Rightarrow> js_object" where
  "or_empty obj = (case obj of None \<Rightarrow> Map.empty | Some m \<Rightarrow> m)"

subsection \<open>parseInt with radix 10\<close>







section \<open>Errors, completions and the calls a method makes\<close>

text \<open>
  What a method throws: a message text, a value that comes from outside this class (the
  native module's rejection, an exception of a caller's callback or of
  \<^verbatim>\<open>compareVersions\<close>), or the error \<^verbatim>\<open>throwError\<close> builds from one of these and the
  name of the method.
\<close>

datatype 'x thrown = Text string | Foreign 'x | Tagged string "'x thrown"

text \<open>
  Modelled from the spec: \<^verbatim>\<open>throwError(err, scope)\<close> is a method of
  \<^verbatim>\<open>InAppUpdatesBase\<close>, which is not among the sources. The spec has it raise: a
  configuration or conversion error is raised at once, and a provider error is raised
  "wrapped with the originating operation name attached". The function gives the error
  that is thrown; the caller's model ends there.
\<close>

definition throwError :: "'x thrown \<Rightarrow> string \<Rightarrow> 'x thrown" where
  "throwError err scope = Tagged scope err"

text \<open>
  How a method that returns a promise ends: it throws before it returns, or the promise it
  returns is rejected, or resolved.
\<close>

datatype ('x, 'a) completion = Throws "'x thrown" | Rejected "'x thrown" | Resolved 'a

text \<open>
  The calls a method makes, in order: to the native module \<^verbatim>\<open>SpInAppUpdates\<close>, to the
  caller's callbacks and to \<^verbatim>\<open>compareVersions\<close>.
\<close>

datatype call =
    Native_checkNeedsUpdate
  | Native_startUpdate js_value
  | Native_installUpdate
  | Native_setStatusUpdateSubscription bool
  | Call_toSemverConverter js_value
  | Call_customVersionComparator js_value js_value
  | Call_compareVersions js_value js_value

section \<open>The native module's constants\<close>

text \<open>
  \<^verbatim>\<open>SpInAppUpdates.UPDATE_AVAILABLE\<close>, \<^verbatim>\<open>APP_UPDATE_IMMEDIATE\<close> and
  \<^verbatim>\<open>APP_UPDATE_FLEXIBLE\<close> are set by the native side; the methods take them as a
  parameter.
\<close>

record native_constants =
  UPDATE_AVAILABLE :: js_value
  APP_UPDATE_IMMEDIATE :: js_value
  APP_UPDATE_FLEXIBLE :: js_value

definition UPDATE_STATUS_AVAILABLE :: "native_constants \<Rightarrow> js_value" where
  "UPDATE_STATUS_AVAILABLE K = UPDATE_AVAILABLE K"

definition UPDATE_TYPE_IMMEDIATE :: "native_constants \<Rightarrow> js_value" where
  "UPDATE_TYPE_IMMEDIATE K = APP_UPDATE_IMMEDIATE K"

definition UPDATE_TYPE_FLEXIBLE :: "native_constants \<Rightarrow> js_value" where
  "UPDATE_TYPE_FLEXIBLE K = APP_UPDATE_FLEXIBLE K"

section \<open>checkNeedsUpdate\<close>

text \<open>
  A callback either returns or throws (\<open>Inl\<close>). A comparator returns a number that is
  compared with zero.
\<close>

type_synonym 'x converter = "js_value \<Rightarrow> 'x + js_value"
type_synonym 'x comparator = "js_value \<Rightarrow> js_value \<Rightarrow> 'x + int"

record 'x CheckOptions =
  curVersion :: js_value
  toSemverConverter :: "'x converter option"
  customVersionComparator :: "'x comparator option"

text \<open>
  \<^verbatim>\<open>checkOptions || {}\<close>: with no options, each of the three reads is \<^verbatim>\<open>undefined\<close>.
\<close>

definition checkOptions_or_empty :: "'x CheckOptions option \<Rightarrow> 'x CheckOptions" where
  "checkOptions_or_empty checkOptions =
     (case checkOptions of
        None \<Rightarrow> \<lparr>curVersion = JUndefined, toSemverConverter = None,
                  customVersionComparator = None\<rparr>
      | Some opts \<Rightarrow> opts)"

record NeedsUpdateResponseNative =
  shouldUpdate :: bool
  storeVersion :: "js_value option"
  reason :: "string option"
  other :: js_object

text \<open>
  The callback given to \<^verbatim>\<open>.then\<close>, on the value the native promise resolved with
  (\<open>None\<close> for \<^verbatim>\<open>null\<close> or \<^verbatim>\<open>undefined\<close>). The default comparator
  \<^verbatim>\<open>compareVersions\<close> of \<^verbatim>\<open>./utils\<close> is a parameter. The result is what the callback
  called and what it returned or threw.
\<close>

definition checkNeedsUpdate_then ::
  "native_constants \<Rightarrow> 'x comparator \<Rightarrow> js_value \<Rightarrow> 'x converter option \<Rightarrow>
   'x comparator option \<Rightarrow> js_object option \<Rightarrow>
   call list \<times> ('x thrown + NeedsUpdateResponseNative)" where
  "checkNeedsUpdate_then K compareVersions curV conv cmp inAppUpdateInfo =
     (let updateAvailability = js_get (or_empty inAppUpdateInfo) ''updateAvailability'';
          versionCode = js_get (or_empty inAppUpdateInfo) ''versionCode''
      in if js_strict_eq updateAvailability (UPDATE_STATUS_AVAILABLE K) then
           (case (case conv of
                    None \<Rightarrow> ([], Inr versionCode)
                  | Some f \<Rightarrow>
                      (case f versionCode of
                         Inl x \<Rightarrow> ([Call_toSemverConverter versionCode], Inl (Foreign x))
                       | Inr v \<Rightarrow>
                           if \<not> js_truthy v then
                             ([Call_toSemverConverter versionCode],
                              Inl (throwError
                                (Text (''Couldnt convert '' @ js_to_string versionCode @
                                       '' using your custom semver converter''))
                                ''checkNeedsUpdate''))
                           else ([Call_toSemverConverter versionCode], Inr v))) of
              (cs, Inl e) \<Rightarrow> (cs, Inl e)
            | (cs, Inr newAppV) \<Rightarrow>
                (case (case cmp of
                         Some c \<Rightarrow> ([Call_customVersionComparator newAppV curV], c newAppV curV)
                       | None \<Rightarrow> ([Call_compareVersions newAppV curV],
                                   compareVersions newAppV curV)) of
                   (cs', Inl x) \<Rightarrow> (cs @ cs', Inl (Foreign x))
                 | (cs', Inr vCompRes) \<Rightarrow>
                     if vCompRes > 0 then
                       (cs @ cs',
                        Inr \<lparr>shouldUpdate = True, storeVersion = Some newAppV,
                             reason = None, other = or_empty inAppUpdateInfo\<rparr>)
                     else
                       (cs @ cs',
                        Inr \<lparr>shouldUpdate = False, storeVersion = Some newAppV,
                             reason = Some
                               (''current version ('' @ js_to_string curV @
                                '') is already later than the latest store version ('' @
                                js_to_string newAppV @
                                (if conv \<noteq> None
                                 then '' - originated from '' @ js_to_string versionCode
                                 else '''') @ '')''),
                             other = or_empty inAppUpdateInfo\<rparr>)))
         else
           ([],
            Inr \<lparr>shouldUpdate = False, storeVersion = None,
                 reason = Some
                   (''status: '' @ js_to_string updateAvailability @
                    '' means there's no new version available''),
                 other = or_empty inAppUpdateInfo\<rparr>))"

text \<open>
  The method. \<open>native\<close> is how the promise of \<^verbatim>\<open>SpInAppUpdates.checkNeedsUpdate()\<close>
  settles: rejected with a value (\<open>Inl\<close>) or resolved with the update info.
\<close>

definition checkNeedsUpdate ::
  "native_constants \<Rightarrow> 'x comparator \<Rightarrow> 'x CheckOptions option \<Rightarrow>
   'x + js_object option \<Rightarrow> call list \<times> ('x, NeedsUpdateResponseNative) completion" where
  "checkNeedsUpdate K compareVersions checkOptions native =
     (let curV = curVersion (checkOptions_or_empty checkOptions);
          conv = toSemverConverter (checkOptions_or_empty checkOptions);
          cmp = customVersionComparator (checkOptions_or_empty checkOptions)
      in if \<not> js_truthy curV then
           ([],
            Throws (throwError
              (Text ''You have to include at least the curVersion to the options passed in checkNeedsUpdate'')
              ''checkNeedsUpdate''))
         else
           (case native of
              Inl err \<Rightarrow>
                ([Native_checkNeedsUpdate],
                 Rejected (throwError (Foreign err) ''checkNeedsUpdate''))
            | Inr inAppUpdateInfo \<Rightarrow>
                (case checkNeedsUpdate_then K compareVersions curV conv cmp inAppUpdateInfo of
                   (cs, Inl e) \<Rightarrow>
                     (Native_checkNeedsUpdate # cs,
                      Rejected (throwError e ''checkNeedsUpdate''))
                 | (cs, Inr r) \<Rightarrow> (Native_checkNeedsUpdate # cs, Resolved r))))"

section \<open>startUpdate and installUpdate\<close>

record StartUpdateOptionsAndroid =
  updateType :: js_value

text \<open>\<^verbatim>\<open>updateOptions || {}\<close>: with no options, \<^verbatim>\<open>updateType\<close> is \<^verbatim>\<open>undefined\<close>.\<close>

definition updateOptions_or_empty ::
  "StartUpdateOptionsAndroid option \<Rightarrow> StartUpdateOptionsAndroid" where
  "updateOptions_or_empty updateOptions =
     (case updateOptions of None \<Rightarrow> \<lparr>updateType = JUndefined\<rparr> | Some opts \<Rightarrow> opts)"

text \<open>
  \<open>native\<close> is how the promise of \<^verbatim>\<open>SpInAppUpdates.startUpdate(updateType)\<close> settles.
\<close>

definition startUpdate ::
  "native_constants \<Rightarrow> StartUpdateOptionsAndroid option \<Rightarrow> 'x + 'a \<Rightarrow>
   call list \<times> ('x, 'a) completion" where
  "startUpdate K updateOptions native =
     (let ut = updateType (updateOptions_or_empty updateOptions)
      in if \<not> js_strict_eq ut (UPDATE_TYPE_FLEXIBLE K) \<and>
            \<not> js_strict_eq ut (UPDATE_TYPE_IMMEDIATE K) then
           ([],
            Throws (throwError
              (Text (''updateType should be one of: '' @
                     js_to_string (UPDATE_TYPE_FLEXIBLE K) @ '' or '' @
                     js_to_string (UPDATE_TYPE_IMMEDIATE K) @ '', '' @
                     js_to_string ut @ '' was passed.''))
              ''startUpdate''))
         else
           (case native of
              Inl err \<Rightarrow>
                ([Native_startUpdate ut], Rejected (throwError (Foreign err) ''startUpdate''))
            | Inr v \<Rightarrow> ([Native_startUpdate ut], Resolved v)))"

definition installUpdate :: "call list" where
  "installUpdate = [Native_installUpdate]"

section \<open>Listeners and events\<close>

text \<open>
  Modelled from the spec: the listener registry behind \<^verbatim>\<open>statusUpdateListeners\<close> and
  \<^verbatim>\<open>resultListeners\<close> is created by \<^verbatim>\<open>InAppUpdatesBase\<close>, which is not among the
  sources. The spec calls it a set-like collection whose entries are the callback
  references themselves, where registering the same reference twice is idempotent. A
  callback is its identity; the registry lists the registered ones, each once.
\<close>

definition addListener :: "'cb \<Rightarrow> 'cb list \<Rightarrow> 'cb list" where
  "addListener cb ls = (if cb \<in> set ls then ls else ls @ [cb])"

text \<open>
  Modelled from the spec: \<^verbatim>\<open>removeListener\<close> of the same registry, which removes the
  callback.
\<close>

definition removeListener :: "'cb \<Rightarrow> 'cb list \<Rightarrow> 'cb list" where
  "removeListener cb ls = removeAll cb ls"

text \<open>
  Modelled from the spec: \<^verbatim>\<open>hasListeners\<close> of the same registry, its "has-any" test.
\<close>

definition hasListeners :: "'cb list \<Rightarrow> bool" where
  "hasListeners ls = (ls \<noteq> [])"

text \<open>
  Modelled from the spec: \<^verbatim>\<open>emitEvent\<close> of the same registry, by which "each registered
  callback receives each event exactly once per emission". The result lists the
  deliveries: which callback was called, and with what payload.
\<close>

definition emitEvent :: "'ev \<Rightarrow> 'cb list \<Rightarrow> ('cb \<times> 'ev) list" where
  "emitEvent event ls = map (\<lambda>cb. (cb, event)) ls"

text \<open>The two registries of an instance.\<close>

record 'cb InAppUpdatesNative =
  statusUpdateListeners :: "'cb list"
  resultListeners :: "'cb list"

definition onIncomingNativeResult ::
  "'ev \<Rightarrow> 'cb InAppUpdatesNative \<Rightarrow> ('cb \<times> 'ev) list" where
  "onIncomingNativeResult event this = emitEvent event (resultListeners this)"


text \<open>The listener methods give the calls made to the native module and the new state.\<close>

definition addStatusUpdateListener ::
  "'cb \<Rightarrow> 'cb InAppUpdatesNative \<Rightarrow> call list \<times> 'cb InAppUpdatesNative" where
  "addStatusUpdateListener callback this =
     (let this' = this\<lparr>statusUpdateListeners :=
                         addListener callback (statusUpdateListeners this)\<rparr>
      in (if hasListeners (statusUpdateListeners this')
          then [Native_setStatusUpdateSubscription True] else [],
          this'))"

definition removeStatusUpdateListener ::
  "'cb \<Rightarrow> 'cb InAppUpdatesNative \<Rightarrow> call list \<times> 'cb InAppUpdatesNative" where
  "removeStatusUpdateListener callback this =
     (let this' = this\<lparr>statusUpdateListeners :=
                         removeListener callback (statusUpdateListeners this)\<rparr>
      in (if \<not> hasListeners (statusUpdateListeners this')
          then [Native_setStatusUpdateSubscription False] else [],
          this'))"

definition addIntentSelectionListener ::
  "'cb \<Rightarrow> 'cb InAppUpdatesNative \<Rightarrow> 'cb InAppUpdatesNative" where
  "addIntentSelectionListener callback this =
     this\<lparr>resultListeners := addListener callback (resultListeners this)\<rparr>"

definition removeIntentSelectionListener ::
  "'cb \<Rightarrow> 'cb InAppUpdatesNative \<Rightarrow> 'cb InAppUpdatesNative" where
  "removeIntentSelectionListener callback this =
     this\<lparr>resultListeners := removeListener callback (resultListeners this)\<rparr>"

text \<open>
  A sequence of calls to the two status-listener methods, run from a state: the calls made
  to the native module, in order, and the final state.
\<close>

datatype 'cb listener_op = Add 'cb | Remove 'cb

definition status_listener_step ::
  "'cb listener_op \<Rightarrow> 'cb InAppUpdatesNative \<Rightarrow> call list \<times> 'cb InAppUpdatesNative" where
  "status_listener_step op this =
     (case op of Add cb \<Rightarrow> addStatusUpdateListener cb this
               | Remove cb \<Rightarrow> removeStatusUpdateListener cb this)"

fun run_status_listener_ops ::
  "'cb listener_op list \<Rightarrow> 'cb InAppUpdatesNative \<Rightarrow> call list \<times> 'cb InAppUpdatesNative" where
  "run_status_listener_ops [] this = ([], this)"
| "run_status_listener_ops (op # ops) this =
     (case status_listener_step op this of
        (cs, this') \<Rightarrow>
          (case run_status_listener_ops ops this' of (cs', this'') \<Rightarrow> (cs @ cs', this'')))"

text \<open>
  At least one status listener is registered before the sequence and after each of its
  calls.
\<close>

fun always_registered :: "'cb listener_op list \<Rightarrow> 'cb InAppUpdatesNative \<Rightarrow> bool" where
  "always_registered [] this = hasListeners (statusUpdateListeners this)"
| "always_registered (op # ops) this =
     (hasListeners (statusUpdateListeners this) \<and>
      always_registered ops (snd (status_listener_step op this)))"

section \<open>Decimal numerals and parseInt\<close>















section \<open>The status subscription follows the registry\<close>

lemma always_registered_has:
  "always_registered ops this \<Longrightarrow> hasListeners (statusUpdateListeners this)"
  by (cases ops) auto

lemma addStatusUpdateListener_calls:
  "fst (addStatusUpdateListener callback this) = [Native_setStatusUpdateSubscription True]"
  by (auto simp: addStatusUpdateListener_def addListener_def hasListeners_def Let_def)

lemma removeStatusUpdateListener_calls:
  "fst (removeStatusUpdateListener callback this) =
     (if hasListeners (statusUpdateListeners (snd (removeStatusUpdateListener callback this)))
      then [] else [Native_setStatusUpdateSubscription False])"
  by (simp add: removeStatusUpdateListener_def Let_def)

lemma run_calls_while_registered:
  "always_registered ops this \<Longrightarrow>
   fst (run_status_listener_ops ops this) =
     concat (map (\<lambda>op. case op of Add cb \<Rightarrow> [Native_setStatusUpdateSubscription True]
                               | Remove cb \<Rightarrow> []) ops)"
proof (induction ops arbitrary: this)
  case Nil
  then show ?case by simp
next
  case (Cons op ops)
  obtain cs this' where step: "status_listener_step op this = (cs, this')"
    by (cases "status_listener_step op this")
  from Cons.prems step have later: "always_registered ops this'"
    by simp
  then have reg: "hasListeners (statusUpdateListeners this')"
    by (rule always_registered_has)
  have "cs = (case op of Add cb \<Rightarrow> [Native_setStatusUpdateSubscription True] | Remove cb \<Rightarrow> [])"
  proof (cases op)
    case (Add cb)
    with step show ?thesis
      using addStatusUpdateListener_calls [of cb this]
      by (simp add: status_listener_step_def)
  next
    case (Remove cb)
    with step reg show ?thesis
      using removeStatusUpdateListener_calls [of cb this]
      by (simp add: status_listener_step_def)
  qed
  with Cons.IH [OF later] step show ?case
    by (cases "run_status_listener_ops ops this'") simp
qed

text \<open>
  C2, as amended. From an empty status registry, \<^verbatim>\<open>addStatusUpdateListener\<close> makes exactly
  one call, \<^verbatim>\<open>setStatusUpdateSubscription(true)\<close>. Removing the only registered status
  listener makes exactly one call, \<^verbatim>\<open>setStatusUpdateSubscription(false)\<close>. Over a sequence
  of add and remove calls during which at least one listener is always registered, no
  disable call is made: the calls made are one \<^verbatim>\<open>setStatusUpdateSubscription(true)\<close> for
  each add of the sequence, and nothing for a remove.
\<close>

theorem status_subscription_toggle:
  "(statusUpdateListeners this = [] \<longrightarrow>
      fst (addStatusUpdateListener callback this) = [Native_setStatusUpdateSubscription True]) \<and>
   (set (statusUpdateListeners this) = {callback} \<longrightarrow>
      fst (removeStatusUpdateListener callback this) = [Native_setStatusUpdateSubscription False]) \<and>
   (always_registered ops this \<longrightarrow>
      fst (run_status_listener_ops ops this) =
        concat (map (\<lambda>op. case op of Add cb \<Rightarrow> [Native_setStatusUpdateSubscription True]
                                  | Remove cb \<Rightarrow> []) ops))"
proof (intro conjI impI)
  show "fst (addStatusUpdateListener callback this) = [Native_setStatusUpdateSubscription True]"
    by (rule addStatusUpdateListener_calls)
next
  assume "set (statusUpdateListeners this) = {callback}"
  then have "removeAll callback (statusUpdateListeners this) = []"
    by (metis set_removeAll Diff_cancel set_empty)
  then show "fst (removeStatusUpdateListener callback this) = [Native_setStatusUpdateSubscription False]"
    by (simp add: removeStatusUpdateListener_def removeListener_def hasListeners_def Let_def)
next
  assume "always_registered ops this"
  then show "fst (run_status_listener_ops ops this) =
        concat (map (\<lambda>op. case op of Add cb \<Rightarrow> [Native_setStatusUpdateSubscription True]
                                  | Remove cb \<Rightarrow> []) ops)"
    by (rule run_calls_while_registered)
qed

theorem status_subscription_toggle_witness:
  "fst (addStatusUpdateListener (1::nat) \<lparr>statusUpdateListeners = [], resultListeners = []\<rparr>)
     = [Native_setStatusUpdateSubscription True] \<and>
   fst (removeStatusUpdateListener (1::nat) \<lparr>statusUpdateListeners = [1], resultListeners = []\<rparr>)
     = [Native_setStatusUpdateSubscription False] \<and>
   always_registered [Add 2, Remove 1, Add 3, Remove 2]
     \<lparr>statusUpdateListeners = [1::nat], resultListeners = []\<rparr> \<and>
   fst (run_status_listener_ops [Add 2, Remove 1, Add 3, Remove 2]
     \<lparr>statusUpdateListeners = [1::nat], resultListeners = []\<rparr>)
     = [Native_setStatusUpdateSubscription True, Native_setStatusUpdateSubscription True]"
proof -
  have reg: "always_registered [Add 2, Remove 1, Add 3, Remove 2]
     \<lparr>statusUpdateListeners = [1::nat], resultListeners = []\<rparr>"
    by (simp add: status_listener_step_def addStatusUpdateListener_def addListener_def
      removeStatusUpdateListener_def removeListener_def hasListeners_def Let_def)
  show ?thesis
    using reg
      status_subscription_toggle [of "\<lparr>statusUpdateListeners = [], resultListeners = []\<rparr>" "1::nat" "[]"]
      status_subscription_toggle [of "\<lparr>statusUpdateListeners = [1::nat], resultListeners = []\<rparr>" "1::nat"
        "[Add 2, Remove 1, Add 3, Remove 2]"]
    by simp
qed

text \<open>
  C2 as stated fails: with listener 1 registered, adding listener 2 keeps a listener
  registered throughout, and the method calls \<^verbatim>\<open>setStatusUpdateSubscription(true)\<close> again.
\<close>

theorem status_churn_enables_again:
  "always_registered [Add 2] \<lparr>statusUpdateListeners = [1::nat], resultListeners = []\<rparr> \<and>
   fst (run_status_listener_ops [Add 2] \<lparr>statusUpdateListeners = [1::nat], resultListeners = []\<rparr>)
     = [Native_setStatusUpdateSubscription True]"
  by (simp add: status_listener_step_def addStatusUpdateListener_def addListener_def
      hasListeners_def Let_def)

text \<open>
  C10. A \<^verbatim>\<open>removeStatusUpdateListener\<close> call that leaves the status registry empty calls
  \<^verbatim>\<open>setStatusUpdateSubscription(false)\<close>, and so does one on a registry that was empty
  already; an \<^verbatim>\<open>addStatusUpdateListener\<close> call that leaves the registry non-empty calls
  \<^verbatim>\<open>setStatusUpdateSubscription(true)\<close>, and so does one on a registry that had listeners
  already.
\<close>

theorem subscription_follows_registry_level:
  "(\<not> hasListeners (statusUpdateListeners (snd (removeStatusUpdateListener callback this))) \<longrightarrow>
      fst (removeStatusUpdateListener callback this) = [Native_setStatusUpdateSubscription False]) \<and>
   (\<not> hasListeners (statusUpdateListeners this) \<longrightarrow>
      fst (removeStatusUpdateListener callback this) = [Native_setStatusUpdateSubscription False]) \<and>
   (hasListeners (statusUpdateListeners (snd (addStatusUpdateListener callback this))) \<longrightarrow>
      fst (addStatusUpdateListener callback this) = [Native_setStatusUpdateSubscription True]) \<and>
   (hasListeners (statusUpdateListeners this) \<longrightarrow>
      fst (addStatusUpdateListener callback this) = [Native_setStatusUpdateSubscription True])"
  by (simp add: addStatusUpdateListener_calls removeStatusUpdateListener_calls
      removeStatusUpdateListener_def removeListener_def hasListeners_def Let_def)

theorem subscription_follows_registry_level_witness:
  "fst (removeStatusUpdateListener (7::nat) \<lparr>statusUpdateListeners = [], resultListeners = []\<rparr>)
     = [Native_setStatusUpdateSubscription False] \<and>
   fst (addStatusUpdateListener (2::nat) \<lparr>statusUpdateListeners = [1], resultListeners = []\<rparr>)
     = [Native_setStatusUpdateSubscription True]"
  using subscription_follows_registry_level [of "7::nat" "\<lparr>statusUpdateListeners = [], resultListeners = []\<rparr>"]
    subscription_follows_registry_level [of "2::nat" "\<lparr>statusUpdateListeners = [1], resultListeners = []\<rparr>"]
  by (simp add: hasListeners_def)

section \<open>Event delivery\<close>

text \<open>
  C9. A raw result event is delivered once to each registered result listener, and every
  payload delivered is the raw event itself: no field is changed, byte counts included.
\<close>

theorem result_event_verbatim:
  "map fst (onIncomingNativeResult event this) = resultListeners this \<and>
   (\<forall>(cb, payload) \<in> set (onIncomingNativeResult event this). payload = event)"
  by (auto simp: onIncomingNativeResult_def emitEvent_def comp_def)

theorem result_event_verbatim_witness:
  "map (\<lambda>(cb, payload). (cb, payload ''bytesDownloaded'', payload ''totalBytesToDownload''))
     (onIncomingNativeResult
        [''bytesDownloaded'' \<mapsto> JStr ''1024'', ''totalBytesToDownload'' \<mapsto> JStr ''2048'']
        \<lparr>statusUpdateListeners = [], resultListeners = [1::nat, 2]\<rparr>) =
   [(1, Some (JStr ''1024''), Some (JStr ''2048'')), (2, Some (JStr ''1024''), Some (JStr ''2048''))]"
  using result_event_verbatim [of "[''bytesDownloaded'' \<mapsto> JStr ''1024'', ''totalBytesToDownload'' \<mapsto> JStr ''2048'']"
      "\<lparr>statusUpdateListeners = [], resultListeners = [1::nat, 2]\<rparr>"]
  by (simp add: onIncomingNativeResult_def emitEvent_def)




section \<open>The update decision\<close>

text \<open>
  C3. When the options give no \<^verbatim>\<open>curVersion\<close> (no options at all, or a
  \<^verbatim>\<open>curVersion\<close> that is undefined, empty or otherwise falsy), \<^verbatim>\<open>checkNeedsUpdate\<close>
  throws the configuration error and has made no call: the native module's
  \<^verbatim>\<open>checkNeedsUpdate\<close> is not invoked, however it would have answered.
\<close>

theorem checkNeedsUpdate_requires_curVersion:
  assumes "\<not> js_truthy (curVersion (checkOptions_or_empty checkOptions))"
  shows "checkNeedsUpdate K compareVersions checkOptions native =
     ([], Throws (throwError
        (Text ''You have to include at least the curVersion to the options passed in checkNeedsUpdate'')
        ''checkNeedsUpdate''))"
  using assms by (simp add: checkNeedsUpdate_def)

theorem checkNeedsUpdate_requires_curVersion_witness:
  "checkNeedsUpdate
      \<lparr>UPDATE_AVAILABLE = JNum 2, APP_UPDATE_IMMEDIATE = JNum 1, APP_UPDATE_FLEXIBLE = JNum 0\<rparr>
      (\<lambda>a b. Inr 1) None
      (Inr (Some [''updateAvailability'' \<mapsto> JNum 2, ''versionCode'' \<mapsto> JStr ''2.0.0'']) :: unit + _) =
     ([], Throws (Tagged ''checkNeedsUpdate''
        (Text ''You have to include at least the curVersion to the options passed in checkNeedsUpdate''))) \<and>
   checkNeedsUpdate
      \<lparr>UPDATE_AVAILABLE = JNum 2, APP_UPDATE_IMMEDIATE = JNum 1, APP_UPDATE_FLEXIBLE = JNum 0\<rparr>
      (\<lambda>a b. Inr 1)
      (Some \<lparr>curVersion = JStr '''', toSemverConverter = None, customVersionComparator = None\<rparr>)
      (Inr (Some [''updateAvailability'' \<mapsto> JNum 2, ''versionCode'' \<mapsto> JStr ''2.0.0'']) :: unit + _) =
     ([], Throws (Tagged ''checkNeedsUpdate''
        (Text ''You have to include at least the curVersion to the options passed in checkNeedsUpdate'')))"
  using
    checkNeedsUpdate_requires_curVersion [of None "\<lparr>UPDATE_AVAILABLE = JNum 2, APP_UPDATE_IMMEDIATE = JNum 1, APP_UPDATE_FLEXIBLE = JNum 0\<rparr>"
      "\<lambda>a b. Inr 1"
      "Inr (Some [''updateAvailability'' \<mapsto> JNum 2, ''versionCode'' \<mapsto> JStr ''2.0.0'']) :: unit + _"]
    checkNeedsUpdate_requires_curVersion [of "Some \<lparr>curVersion = JStr '''', toSemverConverter = None, customVersionComparator = None\<rparr>"
      "\<lparr>UPDATE_AVAILABLE = JNum 2, APP_UPDATE_IMMEDIATE = JNum 1, APP_UPDATE_FLEXIBLE = JNum 0\<rparr>"
      "\<lambda>a b. Inr 1"
      "Inr (Some [''updateAvailability'' \<mapsto> JNum 2, ''versionCode'' \<mapsto> JStr ''2.0.0'']) :: unit + _"]
  by (simp add: checkOptions_or_empty_def throwError_def)

text \<open>
  C1. Whenever \<^verbatim>\<open>checkNeedsUpdate\<close> resolves to a decision record, options were given and
  the native promise resolved; if \<^verbatim>\<open>shouldUpdate\<close> is true then the reported
  \<^verbatim>\<open>updateAvailability\<close> is strictly equal to \<^verbatim>\<open>UPDATE_STATUS.AVAILABLE\<close> and the
  comparator in use (the custom one if given, else \<^verbatim>\<open>compareVersions\<close>), applied to the
  store version (the converter's result if one is given, else the native version code) and
  \<^verbatim>\<open>curVersion\<close>, returned a number above zero; and \<^verbatim>\<open>reason\<close> is present exactly
  when \<^verbatim>\<open>shouldUpdate\<close> is false.
\<close>

theorem decision_record_invariant:
  assumes "checkNeedsUpdate K compareVersions checkOptions native = (cs, Resolved r)"
  shows "\<exists>opts inAppUpdateInfo. checkOptions = Some opts \<and> native = Inr inAppUpdateInfo \<and>
     (shouldUpdate r \<longrightarrow>
        js_strict_eq (js_get (or_empty inAppUpdateInfo) ''updateAvailability'')
          (UPDATE_STATUS_AVAILABLE K) \<and>
        (\<exists>newAppV vCompRes. storeVersion r = Some newAppV \<and>
            (case toSemverConverter opts of
               None \<Rightarrow> newAppV = js_get (or_empty inAppUpdateInfo) ''versionCode''
             | Some f \<Rightarrow> f (js_get (or_empty inAppUpdateInfo) ''versionCode'') = Inr newAppV) \<and>
            (case customVersionComparator opts of
               Some c \<Rightarrow> c newAppV (curVersion opts)
             | None \<Rightarrow> compareVersions newAppV (curVersion opts)) = Inr vCompRes \<and>
            0 < vCompRes)) \<and>
     ((reason r \<noteq> None) = (\<not> shouldUpdate r))"
proof -
  from assms obtain opts where opts: "checkOptions = Some opts"
    by (cases checkOptions) (auto simp: checkNeedsUpdate_def checkOptions_or_empty_def Let_def)
  from assms opts have cur: "js_truthy (curVersion opts)"
    by (auto simp: checkNeedsUpdate_def checkOptions_or_empty_def Let_def split: if_splits)
  from assms opts cur obtain inAppUpdateInfo where native: "native = Inr inAppUpdateInfo"
    by (cases native) (auto simp: checkNeedsUpdate_def checkOptions_or_empty_def Let_def)
  from assms opts cur native obtain cs' where
    body: "checkNeedsUpdate_then K compareVersions (curVersion opts) (toSemverConverter opts)
             (customVersionComparator opts) inAppUpdateInfo = (cs', Inr r)"
    by (auto simp: checkNeedsUpdate_def checkOptions_or_empty_def Let_def
        split: prod.splits sum.splits)
  from body have
    "(shouldUpdate r \<longrightarrow>
        js_strict_eq (js_get (or_empty inAppUpdateInfo) ''updateAvailability'')
          (UPDATE_STATUS_AVAILABLE K) \<and>
        (\<exists>newAppV vCompRes. storeVersion r = Some newAppV \<and>
            (case toSemverConverter opts of
               None \<Rightarrow> newAppV = js_get (or_empty inAppUpdateInfo) ''versionCode''
             | Some f \<Rightarrow> f (js_get (or_empty inAppUpdateInfo) ''versionCode'') = Inr newAppV) \<and>
            (case customVersionComparator opts of
               Some c \<Rightarrow> c newAppV (curVersion opts)
             | None \<Rightarrow> compareVersions newAppV (curVersion opts)) = Inr vCompRes \<and>
            0 < vCompRes)) \<and>
     ((reason r \<noteq> None) = (\<not> shouldUpdate r))"
    by (auto simp: checkNeedsUpdate_then_def Let_def
        split: option.splits sum.splits if_splits prod.splits)
  with opts native show ?thesis by blast
qed

theorem decision_record_invariant_witness:
  "checkNeedsUpdate
      \<lparr>UPDATE_AVAILABLE = JNum 2, APP_UPDATE_IMMEDIATE = JNum 1, APP_UPDATE_FLEXIBLE = JNum 0\<rparr>
      (\<lambda>a b. if a = JStr ''2.0.0'' \<and> b = JStr ''1.0.0'' then Inr 1 else Inr 0)
      (Some \<lparr>curVersion = JStr ''1.0.0'', toSemverConverter = None,
             customVersionComparator = None\<rparr>)
      (Inr (Some [''updateAvailability'' \<mapsto> JNum 2, ''versionCode'' \<mapsto> JStr ''2.0.0'']) :: unit + _) =
     ([Native_checkNeedsUpdate, Call_compareVersions (JStr ''2.0.0'') (JStr ''1.0.0'')],
      Resolved \<lparr>shouldUpdate = True, storeVersion = Some (JStr ''2.0.0''), reason = None,
        other = [''updateAvailability'' \<mapsto> JNum 2, ''versionCode'' \<mapsto> JStr ''2.0.0'']\<rparr>) \<and>
   js_strict_eq
     (js_get (or_empty (Some [''updateAvailability'' \<mapsto> JNum 2, ''versionCode'' \<mapsto> JStr ''2.0.0'']))
        ''updateAvailability'')
     (UPDATE_STATUS_AVAILABLE
        \<lparr>UPDATE_AVAILABLE = JNum 2, APP_UPDATE_IMMEDIATE = JNum 1, APP_UPDATE_FLEXIBLE = JNum 0\<rparr>)"
proof -
  let ?K = "\<lparr>UPDATE_AVAILABLE = JNum 2, APP_UPDATE_IMMEDIATE = JNum 1, APP_UPDATE_FLEXIBLE = JNum 0\<rparr>"
  let ?cmp = "\<lambda>a b. if a = JStr ''2.0.0'' \<and> b = JStr ''1.0.0'' then Inr 1 else Inr 0 :: unit + int"
  let ?opts = "\<lparr>curVersion = JStr ''1.0.0'', toSemverConverter = None,
             customVersionComparator = None\<rparr> :: unit CheckOptions"
  let ?info = "[''updateAvailability'' \<mapsto> JNum 2, ''versionCode'' \<mapsto> JStr ''2.0.0'']"
  let ?r = "\<lparr>shouldUpdate = True, storeVersion = Some (JStr ''2.0.0''), reason = None,
        other = ?info\<rparr>"
  have run: "checkNeedsUpdate ?K ?cmp (Some ?opts) (Inr (Some ?info)) =
     ([Native_checkNeedsUpdate, Call_compareVersions (JStr ''2.0.0'') (JStr ''1.0.0'')], Resolved ?r)"
    by (simp add: checkNeedsUpdate_def checkNeedsUpdate_then_def checkOptions_or_empty_def
        or_empty_def js_get_def js_strict_eq_def UPDATE_STATUS_AVAILABLE_def Let_def)
  from decision_record_invariant [OF run] show ?thesis
    using run by simp
qed

text \<open>
  C4. With a \<^verbatim>\<open>curVersion\<close> given and a native answer whose \<^verbatim>\<open>updateAvailability\<close> is
  not \<^verbatim>\<open>UPDATE_STATUS.AVAILABLE\<close>, \<^verbatim>\<open>checkNeedsUpdate\<close> resolves to a record with
  \<^verbatim>\<open>shouldUpdate\<close> false, no store version, the native answer's properties in
  \<^verbatim>\<open>other\<close>, and a reason made of the label \<^verbatim>\<open>status: \<close>, the status as a template
  literal prints it, and \<^verbatim>\<open> means there's no new version available\<close>. The only call made
  is the native one: neither comparator and no converter is invoked.
\<close>

theorem no_update_status_skips_comparison:
  assumes "js_truthy (curVersion opts)"
    and "\<not> js_strict_eq (js_get (or_empty inAppUpdateInfo) ''updateAvailability'')
            (UPDATE_STATUS_AVAILABLE K)"
  shows "checkNeedsUpdate K compareVersions (Some opts) (Inr inAppUpdateInfo) =
     ([Native_checkNeedsUpdate],
      Resolved \<lparr>shouldUpdate = False, storeVersion = None,
        reason = Some (''status: '' @
           js_to_string (js_get (or_empty inAppUpdateInfo) ''updateAvailability'') @
           '' means there's no new version available''),
        other = or_empty inAppUpdateInfo\<rparr>)"
  using assms
  by (simp add: checkNeedsUpdate_def checkNeedsUpdate_then_def checkOptions_or_empty_def Let_def)

theorem no_update_status_skips_comparison_witness:
  "checkNeedsUpdate
      \<lparr>UPDATE_AVAILABLE = JNum 2, APP_UPDATE_IMMEDIATE = JNum 1, APP_UPDATE_FLEXIBLE = JNum 0\<rparr>
      (\<lambda>a b. Inr 1)
      (Some \<lparr>curVersion = JStr ''1.0.0'', toSemverConverter = None,
             customVersionComparator = Some (\<lambda>a b. Inr 1)\<rparr>)
      (Inr (Some [''updateAvailability'' \<mapsto> JNum 1, ''versionCode'' \<mapsto> JStr ''2.0.0'']) :: unit + _) =
     ([Native_checkNeedsUpdate],
      Resolved \<lparr>shouldUpdate = False, storeVersion = None,
        reason = Some ''status: 1 means there's no new version available'',
        other = [''updateAvailability'' \<mapsto> JNum 1, ''versionCode'' \<mapsto> JStr ''2.0.0'']\<rparr>)"
  using no_update_status_skips_comparison [of "\<lparr>curVersion = JStr ''1.0.0'', toSemverConverter = None,
             customVersionComparator = Some (\<lambda>a b. Inr 1)\<rparr>"
      "Some [''updateAvailability'' \<mapsto> JNum 1, ''versionCode'' \<mapsto> JStr ''2.0.0'']"
      "\<lparr>UPDATE_AVAILABLE = JNum 2, APP_UPDATE_IMMEDIATE = JNum 1, APP_UPDATE_FLEXIBLE = JNum 0\<rparr>"
      "\<lambda>a b. Inr 1 :: unit + int"]
  by (simp add: or_empty_def js_get_def js_strict_eq_def UPDATE_STATUS_AVAILABLE_def
      string_of_nat.simps digit_char_def)

text \<open>
  C7. With a \<^verbatim>\<open>curVersion\<close> given, a native answer whose status is available and a
  converter that returns a falsy value for the native version code, the promise of
  \<^verbatim>\<open>checkNeedsUpdate\<close> is rejected. The error is the one \<^verbatim>\<open>throwError\<close> raises in the
  \<^verbatim>\<open>.then\<close> callback, whose message names the version code, raised again by the
  \<^verbatim>\<open>.catch\<close> callback. After the native call and the converter nothing is called: no
  comparator runs and no record is produced.
\<close>

theorem empty_conversion_rejects:
  assumes "js_truthy (curVersion opts)"
    and "js_strict_eq (js_get (or_empty inAppUpdateInfo) ''updateAvailability'')
           (UPDATE_STATUS_AVAILABLE K)"
    and "toSemverConverter opts = Some f"
    and "f (js_get (or_empty inAppUpdateInfo) ''versionCode'') = Inr v"
    and "\<not> js_truthy v"
  shows "checkNeedsUpdate K compareVersions (Some opts) (Inr inAppUpdateInfo) =
     ([Native_checkNeedsUpdate,
       Call_toSemverConverter (js_get (or_empty inAppUpdateInfo) ''versionCode'')],
      Rejected (throwError
        (throwError
           (Text (''Couldnt convert '' @
                  js_to_string (js_get (or_empty inAppUpdateInfo) ''versionCode'') @
                  '' using your custom semver converter''))
           ''checkNeedsUpdate'')
        ''checkNeedsUpdate''))"
  using assms
  by (simp add: checkNeedsUpdate_def checkNeedsUpdate_then_def checkOptions_or_empty_def Let_def)

theorem empty_conversion_rejects_witness:
  "checkNeedsUpdate
      \<lparr>UPDATE_AVAILABLE = JNum 2, APP_UPDATE_IMMEDIATE = JNum 1, APP_UPDATE_FLEXIBLE = JNum 0\<rparr>
      (\<lambda>a b. Inr 1)
      (Some \<lparr>curVersion = JStr ''1.0.0'', toSemverConverter = Some (\<lambda>v. Inr (JStr '''')),
             customVersionComparator = None\<rparr>)
      (Inr (Some [''updateAvailability'' \<mapsto> JNum 2, ''versionCode'' \<mapsto> JNum 10203]) :: unit + _) =
     ([Native_checkNeedsUpdate, Call_toSemverConverter (JNum 10203)],
      Rejected (Tagged ''checkNeedsUpdate'' (Tagged ''checkNeedsUpdate''
        (Text ''Couldnt convert 10203 using your custom semver converter''))))"
  using empty_conversion_rejects [of "\<lparr>curVersion = JStr ''1.0.0'', toSemverConverter = Some (\<lambda>v. Inr (JStr '''')),
             customVersionComparator = None\<rparr>"
      "Some [''updateAvailability'' \<mapsto> JNum 2, ''versionCode'' \<mapsto> JNum 10203]"
      "\<lparr>UPDATE_AVAILABLE = JNum 2, APP_UPDATE_IMMEDIATE = JNum 1, APP_UPDATE_FLEXIBLE = JNum 0\<rparr>"
      "\<lambda>v. Inr (JStr '''')" "JStr ''''" "\<lambda>a b. Inr 1 :: unit + int"]
  by (simp add: or_empty_def js_get_def js_strict_eq_def UPDATE_STATUS_AVAILABLE_def
      throwError_def string_of_nat.simps digit_char_def)

text \<open>
  C5, as amended. When \<^verbatim>\<open>checkNeedsUpdate\<close> resolves, the status is available and
  \<^verbatim>\<open>shouldUpdate\<close> is false, the reason is
  \<^verbatim>\<open>current version (<curVersion>) is already later than the latest store version (<store version><note>)\<close>,
  where the note is \<^verbatim>\<open> - originated from <versionCode>\<close> if a converter was given and
  empty if none was: the note follows the presence of the converter alone.
\<close>

theorem origin_note_follows_converter:
  assumes "checkNeedsUpdate K compareVersions checkOptions (Inr inAppUpdateInfo) = (cs, Resolved r)"
    and "js_strict_eq (js_get (or_empty inAppUpdateInfo) ''updateAvailability'')
           (UPDATE_STATUS_AVAILABLE K)"
    and "\<not> shouldUpdate r"
  shows "\<exists>newAppV. storeVersion r = Some newAppV \<and>
     reason r = Some
       (''current version ('' @ js_to_string (curVersion (checkOptions_or_empty checkOptions)) @
        '') is already later than the latest store version ('' @ js_to_string newAppV @
        (if toSemverConverter (checkOptions_or_empty checkOptions) = None then ''''
         else '' - originated from '' @
              js_to_string (js_get (or_empty inAppUpdateInfo) ''versionCode'')) @
        '')'')"
  using assms
  by (auto simp: checkNeedsUpdate_def checkNeedsUpdate_then_def Let_def
      split: option.splits sum.splits if_splits prod.splits)

theorem origin_note_follows_converter_witness:
  "checkNeedsUpdate
      \<lparr>UPDATE_AVAILABLE = JNum 2, APP_UPDATE_IMMEDIATE = JNum 1, APP_UPDATE_FLEXIBLE = JNum 0\<rparr>
      (\<lambda>a b. Inr 0)
      (Some \<lparr>curVersion = JStr ''1.2.3'',
             toSemverConverter = Some (\<lambda>v. if v = JNum 10203 then Inr (JStr ''1.2.3'') else Inl ()),
             customVersionComparator = None\<rparr>)
      (Inr (Some [''updateAvailability'' \<mapsto> JNum 2, ''versionCode'' \<mapsto> JNum 10203])) =
     ([Native_checkNeedsUpdate, Call_toSemverConverter (JNum 10203),
       Call_compareVersions (JStr ''1.2.3'') (JStr ''1.2.3'')],
      Resolved \<lparr>shouldUpdate = False, storeVersion = Some (JStr ''1.2.3''),
        reason = Some ''current version (1.2.3) is already later than the latest store version (1.2.3 - originated from 10203)'',
        other = [''updateAvailability'' \<mapsto> JNum 2, ''versionCode'' \<mapsto> JNum 10203]\<rparr>)"
proof -
  let ?K = "\<lparr>UPDATE_AVAILABLE = JNum 2, APP_UPDATE_IMMEDIATE = JNum 1, APP_UPDATE_FLEXIBLE = JNum 0\<rparr>"
  let ?opts = "\<lparr>curVersion = JStr ''1.2.3'',
             toSemverConverter = Some (\<lambda>v. if v = JNum 10203 then Inr (JStr ''1.2.3'') else Inl ()),
             customVersionComparator = None\<rparr>"
  let ?info = "[''updateAvailability'' \<mapsto> JNum 2, ''versionCode'' \<mapsto> JNum 10203]"
  obtain cs r where run:
    "checkNeedsUpdate ?K (\<lambda>a b. Inr 0) (Some ?opts) (Inr (Some ?info)) = (cs, Resolved r)"
    and cs: "cs = [Native_checkNeedsUpdate, Call_toSemverConverter (JNum 10203),
       Call_compareVersions (JStr ''1.2.3'') (JStr ''1.2.3'')]"
    and r: "\<not> shouldUpdate r" "other r = ?info" "storeVersion r = Some (JStr ''1.2.3'')"
    by (simp add: checkNeedsUpdate_def checkNeedsUpdate_then_def checkOptions_or_empty_def
        or_empty_def js_get_def js_strict_eq_def UPDATE_STATUS_AVAILABLE_def Let_def)
  have status: "js_strict_eq (js_get (or_empty (Some ?info)) ''updateAvailability'')
      (UPDATE_STATUS_AVAILABLE ?K)"
    by (simp add: or_empty_def js_get_def js_strict_eq_def UPDATE_STATUS_AVAILABLE_def)
  from origin_note_follows_converter [OF run status r(1)] r(3)
  have "reason r = Some ''current version (1.2.3) is already later than the latest store version (1.2.3 - originated from 10203)''"
    by (simp add: checkOptions_or_empty_def or_empty_def js_get_def string_of_nat.simps
        digit_char_def)
  with r have "r = \<lparr>shouldUpdate = False, storeVersion = Some (JStr ''1.2.3''),
        reason = Some ''current version (1.2.3) is already later than the latest store version (1.2.3 - originated from 10203)'',
        other = ?info\<rparr>"
    by simp
  with run cs show ?thesis by simp
qed

text \<open>
  C5 as stated fails: with a converter that returns the native version unchanged, the
  converted value does not differ from the native one, and the reason carries the note.
\<close>

theorem origin_note_for_unchanged_version:
  "checkNeedsUpdate
      \<lparr>UPDATE_AVAILABLE = JNum 2, APP_UPDATE_IMMEDIATE = JNum 1, APP_UPDATE_FLEXIBLE = JNum 0\<rparr>
      (\<lambda>a b. Inr 0)
      (Some \<lparr>curVersion = JStr ''1.0.0'', toSemverConverter = Some Inr,
             customVersionComparator = None\<rparr>)
      (Inr (Some [''updateAvailability'' \<mapsto> JNum 2, ''versionCode'' \<mapsto> JStr ''1.0.0'']) :: unit + _) =
     ([Native_checkNeedsUpdate, Call_toSemverConverter (JStr ''1.0.0''),
       Call_compareVersions (JStr ''1.0.0'') (JStr ''1.0.0'')],
      Resolved \<lparr>shouldUpdate = False, storeVersion = Some (JStr ''1.0.0''),
        reason = Some ''current version (1.0.0) is already later than the latest store version (1.0.0 - originated from 1.0.0)'',
        other = [''updateAvailability'' \<mapsto> JNum 2, ''versionCode'' \<mapsto> JStr ''1.0.0'']\<rparr>)"
  by (simp add: checkNeedsUpdate_def checkNeedsUpdate_then_def checkOptions_or_empty_def
        or_empty_def js_get_def js_strict_eq_def UPDATE_STATUS_AVAILABLE_def Let_def)

section \<open>Starting an update\<close>

text \<open>
  C8. When \<^verbatim>\<open>updateType\<close> is strictly equal to neither \<^verbatim>\<open>UPDATE_TYPE.FLEXIBLE\<close> nor
  \<^verbatim>\<open>UPDATE_TYPE.IMMEDIATE\<close>, \<^verbatim>\<open>startUpdate\<close> throws the configuration error and has
  made no call. When it is one of the two, the only call made is the native
  \<^verbatim>\<open>startUpdate\<close>, with that very value, whether the native promise then resolves or
  rejects.
\<close>

theorem startUpdate_checks_updateType:
  "(\<not> js_strict_eq (updateType (updateOptions_or_empty updateOptions)) (UPDATE_TYPE_FLEXIBLE K) \<and>
    \<not> js_strict_eq (updateType (updateOptions_or_empty updateOptions)) (UPDATE_TYPE_IMMEDIATE K) \<longrightarrow>
      startUpdate K updateOptions native =
        ([], Throws (throwError
              (Text (''updateType should be one of: '' @
                     js_to_string (UPDATE_TYPE_FLEXIBLE K) @ '' or '' @
                     js_to_string (UPDATE_TYPE_IMMEDIATE K) @ '', '' @
                     js_to_string (updateType (updateOptions_or_empty updateOptions)) @
                     '' was passed.''))
              ''startUpdate''))) \<and>
   (js_strict_eq (updateType (updateOptions_or_empty updateOptions)) (UPDATE_TYPE_FLEXIBLE K) \<or>
    js_strict_eq (updateType (updateOptions_or_empty updateOptions)) (UPDATE_TYPE_IMMEDIATE K) \<longrightarrow>
      fst (startUpdate K updateOptions native) =
        [Native_startUpdate (updateType (updateOptions_or_empty updateOptions))])"
  by (auto simp: startUpdate_def Let_def split: sum.splits)

theorem startUpdate_checks_updateType_witness:
  "startUpdate
      \<lparr>UPDATE_AVAILABLE = JNum 2, APP_UPDATE_IMMEDIATE = JNum 1, APP_UPDATE_FLEXIBLE = JNum 0\<rparr>
      (Some \<lparr>updateType = JNum 5\<rparr>) (Inr () :: unit + unit) =
     ([], Throws (Tagged ''startUpdate''
        (Text ''updateType should be one of: 0 or 1, 5 was passed.''))) \<and>
   fst (startUpdate
      \<lparr>UPDATE_AVAILABLE = JNum 2, APP_UPDATE_IMMEDIATE = JNum 1, APP_UPDATE_FLEXIBLE = JNum 0\<rparr>
      (Some \<lparr>updateType = JNum 1\<rparr>) (Inr () :: unit + unit)) = [Native_startUpdate (JNum 1)] \<and>
   fst (startUpdate
      \<lparr>UPDATE_AVAILABLE = JNum 2, APP_UPDATE_IMMEDIATE = JNum 1, APP_UPDATE_FLEXIBLE = JNum 0\<rparr>
      (Some \<lparr>updateType = JNum 0\<rparr>) (Inl () :: unit + unit)) = [Native_startUpdate (JNum 0)]"
  using
    startUpdate_checks_updateType [of "Some \<lparr>updateType = JNum 5\<rparr>"
      "\<lparr>UPDATE_AVAILABLE = JNum 2, APP_UPDATE_IMMEDIATE = JNum 1, APP_UPDATE_FLEXIBLE = JNum 0\<rparr>"
      "Inr () :: unit + unit"]
    startUpdate_checks_updateType [of "Some \<lparr>updateType = JNum 1\<rparr>"
      "\<lparr>UPDATE_AVAILABLE = JNum 2, APP_UPDATE_IMMEDIATE = JNum 1, APP_UPDATE_FLEXIBLE = JNum 0\<rparr>"
      "Inr () :: unit + unit"]
    startUpdate_checks_updateType [of "Some \<lparr>updateType = JNum 0\<rparr>"
      "\<lparr>UPDATE_AVAILABLE = JNum 2, APP_UPDATE_IMMEDIATE = JNum 1, APP_UPDATE_FLEXIBLE = JNum 0\<rparr>"
      "Inl () :: unit + unit"]
  by (simp add: updateOptions_or_empty_def js_strict_eq_def UPDATE_TYPE_FLEXIBLE_def
      UPDATE_TYPE_IMMEDIATE_def throwError_def string_of_nat.simps digit_char_def)

end
